theory Spec2Isabelle
  imports Main
begin

section \<open>Python values used by the embeddings service\<close>

text \<open>
  A Python \<open>str\<close> is a sequence of Unicode code points; it is modelled as the list of
  its code points. String literals of the source are written with \<open>str_lit\<close>.
\<close>

type_synonym py_str = "nat list"

definition str_lit :: "string \<Rightarrow> py_str" where
  "str_lit s = map of_char s"

text \<open>
  The code points that \<open>str.strip()\<close> removes when called without an argument
  (the characters for which \<open>str.isspace\<close> holds): U+0009..U+000D, U+001C..U+0020,
  U+0085, U+00A0, U+1680, U+2000..U+200A, U+2028, U+2029, U+202F, U+205F, U+3000.
\<close>

definition isspace :: "nat \<Rightarrow> bool" where
  "isspace c \<longleftrightarrow>
     (9 \<le> c \<and> c \<le> 13) \<or> (28 \<le> c \<and> c \<le> 32) \<or> c = 133 \<or> c = 160 \<or> c = 5760 \<or>
     (8192 \<le> c \<and> c \<le> 8202) \<or> c = 8232 \<or> c = 8233 \<or> c = 8239 \<or> c = 8287 \<or>
     c = 12288"

definition lstrip :: "py_str \<Rightarrow> py_str" where
  "lstrip t = dropWhile isspace t"

definition rstrip :: "py_str \<Rightarrow> py_str" where
  "rstrip t = rev (dropWhile isspace (rev t))"

definition strip :: "py_str \<Rightarrow> py_str" where
  "strip t = rstrip (lstrip t)"

text \<open>Truth value of a \<open>str\<close>: the empty string is false, every other string is true.\<close>

definition truthy :: "py_str \<Rightarrow> bool" where
  "truthy t \<longleftrightarrow> t \<noteq> []"

text \<open>
  An exception that is an instance of \<open>Exception\<close>, carried with the text that
  \<open>str(e)\<close> gives. Both \<open>except Exception\<close> clauses of the service catch exactly these.
\<close>

datatype py_exn = Exception (str_of: py_str)

text \<open>A one-dimensional array of numbers, as a row of the encoder's result; \<open>tolist\<close>
  is its \<open>.tolist()\<close>.\<close>

datatype 'n ndarray = Array (tolist: "'n list")

definition len :: "'n ndarray \<Rightarrow> int" where
  "len v = int (length (tolist v))"

text \<open>The values the handlers return: dictionaries with literal keys, in the order written.\<close>

datatype 'n json =
    JStr py_str
  | JInt int
  | JNum 'n
  | JList "'n json list"
  | JDict "(string \<times> 'n json) list"

record HTTPException =
  status_code :: int
  detail :: py_str

section \<open>The pretrained-model library\<close>

text \<open>
  \<open>model.encode(texts, normalize_embeddings=flag)\<close> belongs to the external library.
  It is a parameter of the model: a function of the library's internal state \<open>'s\<close>, the
  texts and the flag (\<open>None\<close> is Python's \<open>None\<close>) that either raises or returns the rows
  of a two-dimensional array, and leaves a new internal state.
\<close>

type_synonym ('n, 's) encoder =
  "'s \<Rightarrow> py_str list \<Rightarrow> bool option \<Rightarrow> (py_exn + 'n ndarray list) \<times> 's"

text \<open>What lies outside the module: the library's state and the record of every
  \<open>encode\<close> invocation made so far, oldest first.\<close>

record 's world =
  lib_state :: 's
  encode_calls :: "(py_str list \<times> bool option) list"

definition call_encode ::
  "('n, 's) encoder \<Rightarrow> 's world \<Rightarrow> py_str list \<Rightarrow> bool option
     \<Rightarrow> (py_exn + 'n ndarray list) \<times> 's world" where
  "call_encode enc w texts flag =
     (case enc (lib_state w) texts flag of
        (r, s') \<Rightarrow> (r, \<lparr>lib_state = s', encode_calls = encode_calls w @ [(texts, flag)]\<rparr>))"

text \<open>What the process finds when it starts: the environment variables, whether
  \<open>sentence_transformers\<close> can be imported, and the constructor \<open>SentenceTransformer\<close>,
  which raises or returns a model object (its \<open>encode\<close> and the library's initial state).\<close>

record ('n, 's) host =
  environ :: "py_str \<rightharpoonup> py_str"
  import_error :: "py_exn option"
  SentenceTransformer :: "py_str \<Rightarrow> py_exn + (('n, 's) encoder \<times> 's)"

definition getenv :: "(py_str \<rightharpoonup> py_str) \<Rightarrow> py_str \<Rightarrow> py_str \<Rightarrow> py_str" where
  "getenv env key dflt = (case env key of None \<Rightarrow> dflt | Some v \<Rightarrow> v)"

section \<open>Module level: configuration, model loading, dimension probe\<close>

text \<open>The module's global bindings that the handlers read.\<close>

record ('n, 's) globals =
  MODEL_NAME :: py_str
  NORMALIZE_DEFAULT :: bool
  model :: "('n, 's) encoder"
  EMBEDDING_DIM :: int

datatype startup_error = RuntimeError py_str

text \<open>Lines 27 to 31: the probe. An empty result makes \<open>_probe[0]\<close> raise, which the
  \<open>except\<close> clause catches like a failure of \<open>encode\<close> itself.\<close>

definition probe_dim :: "(py_exn + 'n ndarray list) \<Rightarrow> int" where
  "probe_dim r =
     (case r of
        Inl e \<Rightarrow> 384
      | Inr probe \<Rightarrow> (case probe of [] \<Rightarrow> 384 | v # _ \<Rightarrow> len v))"

definition startup :: "('n, 's) host \<Rightarrow> startup_error + (('n, 's) globals \<times> 's world)" where
  "startup h =
     (case import_error h of
        Some e \<Rightarrow>
          Inl (RuntimeError
            (str_lit ''Failed to import sentence_transformers. Please install requirements.''))
      | None \<Rightarrow>
          (let name = getenv (environ h) (str_lit ''EMBEDDINGS_MODEL_NAME'')
                        (str_lit ''BAAI/bge-small-en-v1.5'');
               normalize_default = True
           in case SentenceTransformer h name of
                Inl e \<Rightarrow>
                  Inl (RuntimeError
                    (str_lit ''Failed to load model '' @ [39] @ name @ [39] @ str_lit ''.''))
              | Inr (enc, s0) \<Rightarrow>
                  (case call_encode enc \<lparr>lib_state = s0, encode_calls = []\<rparr>
                          [str_lit ''test''] (Some normalize_default) of
                     (r, w) \<Rightarrow>
                       Inr (\<lparr>MODEL_NAME = name, NORMALIZE_DEFAULT = normalize_default,
                             model = enc, EMBEDDING_DIM = probe_dim r\<rparr>, w))))"

section \<open>Request schema\<close>

text \<open>A field of the JSON body that may be left out.\<close>

datatype 'a field = Omitted | Present 'a

text \<open>A body that passes validation: \<open>input\<close> is a list of strings, \<open>normalize\<close> is
  left out, or present as \<open>null\<close> (\<open>Present None\<close>) or as a boolean.\<close>

record body =
  body_input :: "py_str list"
  body_normalize :: "bool option field"

record EmbeddingsRequest =
  req_input :: "py_str list"
  req_normalize :: "bool option"

text \<open>Construction of the request object: a field left out takes the class default,
  which line 37 binds to \<open>NORMALIZE_DEFAULT\<close>.\<close>

definition parse_request :: "('n, 's) globals \<Rightarrow> body \<Rightarrow> EmbeddingsRequest" where
  "parse_request g b =
     \<lparr>req_input = body_input b,
      req_normalize =
        (case body_normalize b of Omitted \<Rightarrow> Some (NORMALIZE_DEFAULT g) | Present v \<Rightarrow> v)\<rparr>"

section \<open>Handlers\<close>

text \<open>Each handler takes the module globals (and the world, when it calls the library)
  and returns them with its result.\<close>

definition health :: "('n, 's) globals \<Rightarrow> 'n json \<times> ('n, 's) globals" where
  "health g =
     (JDict [(''status'', JStr (str_lit ''ok'')),
             (''model'', JStr (MODEL_NAME g)),
             (''dimension'', JInt (EMBEDDING_DIM g))], g)"

text \<open>Line 51. Every element of a validated \<open>input\<close> is a \<open>str\<close>, so the
  \<open>isinstance\<close> test holds for each of them.\<close>

definition filter_texts :: "py_str list \<Rightarrow> py_str list" where
  "filter_texts inp = filter (\<lambda>t. truthy (strip t)) inp"

definition embedding_item :: "'n ndarray \<Rightarrow> 'n json" where
  "embedding_item v = JDict [(''embedding'', JList (map JNum (tolist v)))]"

definition embeddings ::
  "('n, 's) globals \<Rightarrow> 's world \<Rightarrow> EmbeddingsRequest
     \<Rightarrow> (HTTPException + 'n json) \<times> ('n, 's) globals \<times> 's world" where
  "embeddings g w req =
     (let texts = filter_texts (req_input req)
      in if texts = [] then
           (Inl \<lparr>status_code = 400,
                 detail = str_lit ''Input must contain at least one non-empty string.''\<rparr>, g, w)
         else
           (case call_encode (model g) w texts (req_normalize req) of
              (Inl e, w') \<Rightarrow>
                (Inl \<lparr>status_code = 500,
                      detail = str_lit ''Encoding failed: '' @ str_of e\<rparr>, g, w')
            | (Inr vecs, w') \<Rightarrow>
                (Inr (JDict [(''model'', JStr (MODEL_NAME g)),
                             (''dimension'', JInt (EMBEDDING_DIM g)),
                             (''data'', JList (map embedding_item vecs))]), g, w')))"

definition root :: "('n, 's) globals \<Rightarrow> 'n json \<times> ('n, 's) globals" where
  "root g =
     (JDict [(''message'', JStr (str_lit ''Embeddings service ready'')),
             (''model'', JStr (MODEL_NAME g)),
             (''dimension'', JInt (EMBEDDING_DIM g))], g)"

section \<open>Routing and the running process\<close>

datatype http_request = GET_health | GET_root | POST_embeddings body

definition handle ::
  "('n, 's) globals \<Rightarrow> 's world \<Rightarrow> http_request
     \<Rightarrow> (HTTPException + 'n json) \<times> ('n, 's) globals \<times> 's world" where
  "handle g w r =
     (case r of
        GET_health \<Rightarrow> (case health g of (j, g') \<Rightarrow> (Inr j, g', w))
      | GET_root \<Rightarrow> (case root g of (j, g') \<Rightarrow> (Inr j, g', w))
      | POST_embeddings b \<Rightarrow> embeddings g w (parse_request g b))"

text \<open>Requests served one after the other, each on the globals and world the previous
  one left.\<close>

fun serve ::
  "('n, 's) globals \<Rightarrow> 's world \<Rightarrow> http_request list
     \<Rightarrow> (HTTPException + 'n json) list \<times> ('n, 's) globals \<times> 's world" where
  "serve g w [] = ([], g, w)"
| "serve g w (r # rs) =
     (case handle g w r of
        (res, g', w') \<Rightarrow> (case serve g' w' rs of (ress, g'', w'') \<Rightarrow> (res # ress, g'', w'')))"

text \<open>The process: the module is executed first; when that raises, no route exists and
  no request is served.\<close>

definition run_process ::
  "('n, 's) host \<Rightarrow> http_request list
     \<Rightarrow> startup_error + ((HTTPException + 'n json) list \<times> ('n, 's) globals \<times> 's world)" where
  "run_process h rs =
     (case startup h of
        Inl e \<Rightarrow> Inl e
      | Inr (g, w) \<Rightarrow> Inr (serve g w rs))"

section \<open>Vocabulary of the specification\<close>

text \<open>A string that is non-empty and not made of whitespace only, in the
  specification's words.\<close>

definition non_blank :: "py_str \<Rightarrow> bool" where
  "non_blank t \<longleftrightarrow> t \<noteq> [] \<and> \<not> (\<forall>c \<in> set t. isspace c)"

text \<open>Reading a key of a returned dictionary.\<close>

definition field_of :: "string \<Rightarrow> 'n json \<Rightarrow> 'n json option" where
  "field_of k j = (case j of JDict kvs \<Rightarrow> map_of kvs k | _ \<Rightarrow> None)"

section \<open>Sample libraries\<close>

text \<open>Concrete stand-ins for the external library, on which the theorems below are
  instantiated: an encoder that returns one two-element row per text and counts its
  invocations, one that always raises, and hosts built from them.\<close>

definition sample_encode :: "(int, nat) encoder" where
  "sample_encode s texts flag =
     (Inr (map (\<lambda>t. Array [int (length t), (if flag = Some True then 1 else 0)]) texts), Suc s)"

definition failing_encode :: "(int, nat) encoder" where
  "failing_encode s texts flag = (Inl (Exception (str_lit ''out of memory'')), Suc s)"

definition sample_host :: "(int, nat) host" where
  "sample_host =
     \<lparr>environ = Map.empty, import_error = None,
      SentenceTransformer = (\<lambda>name. Inr (sample_encode, 0))\<rparr>"

definition unprobeable_host :: "(int, nat) host" where
  "unprobeable_host =
     \<lparr>environ = Map.empty, import_error = None,
      SentenceTransformer = (\<lambda>name. Inr (failing_encode, 0))\<rparr>"

definition modelless_host :: "(int, nat) host" where
  "modelless_host =
     \<lparr>environ = Map.empty, import_error = None,
      SentenceTransformer = (\<lambda>name. Inl (Exception (str_lit ''no such model'')))\<rparr>"

definition sample_globals :: "(int, nat) globals" where
  "sample_globals =
     \<lparr>MODEL_NAME = str_lit ''BAAI/bge-small-en-v1.5'', NORMALIZE_DEFAULT = True,
      model = sample_encode, EMBEDDING_DIM = 2\<rparr>"

definition failing_globals :: "(int, nat) globals" where
  "failing_globals =
     \<lparr>MODEL_NAME = str_lit ''BAAI/bge-small-en-v1.5'', NORMALIZE_DEFAULT = True,
      model = failing_encode, EMBEDDING_DIM = 384\<rparr>"

definition probed_world :: "nat world" where
  "probed_world = \<lparr>lib_state = 1, encode_calls = [([str_lit ''test''], Some True)]\<rparr>"

text \<open>Sample request bodies.\<close>

definition three_texts :: body where
  "three_texts =
     \<lparr>body_input = [str_lit ''a'', str_lit '' '', str_lit ''b c''], body_normalize = Omitted\<rparr>"

definition blank_texts :: body where
  "blank_texts = \<lparr>body_input = [str_lit '''', str_lit ''   ''], body_normalize = Omitted\<rparr>"

definition padded_texts :: body where
  "padded_texts =
     \<lparr>body_input = [[32, 32, 97, 32, 98, 32], [32, 9, 10], [9, 99, 10]],
      body_normalize = Present (Some False)\<rparr>"

text \<open>A sample sequence of requests.\<close>

definition four_requests :: "http_request list" where
  "four_requests =
     [GET_health, POST_embeddings three_texts, POST_embeddings blank_texts, GET_root]"

section \<open>The input filter\<close>

lemma dropWhile_all_iff:
  "(\<forall>x \<in> set (dropWhile P xs). P x) \<longleftrightarrow> (\<forall>x \<in> set xs. P x)"
  by (induction xs) auto

lemma strip_Nil_iff: "strip t = [] \<longleftrightarrow> (\<forall>c \<in> set t. isspace c)"
proof -
  have "strip t = [] \<longleftrightarrow> dropWhile isspace (rev (dropWhile isspace t)) = []"
    by (simp add: strip_def rstrip_def lstrip_def)
  also have "\<dots> \<longleftrightarrow> (\<forall>c \<in> set (dropWhile isspace t). isspace c)"
    by simp
  also have "\<dots> \<longleftrightarrow> (\<forall>c \<in> set t. isspace c)"
    by (rule dropWhile_all_iff)
  finally show ?thesis .
qed

lemma truthy_strip: "truthy (strip t) \<longleftrightarrow> non_blank t"
  by (auto simp: truthy_def strip_Nil_iff non_blank_def)

lemma filter_texts_eq: "filter_texts inp = filter non_blank inp"
  by (simp add: filter_texts_def truthy_strip)

lemma startup_sample_host: "startup sample_host = Inr (sample_globals, probed_world)"
  by (simp add: startup_def sample_host_def sample_globals_def probed_world_def getenv_def
      call_encode_def sample_encode_def probe_dim_def len_def)

lemma startup_unprobeable_host: "startup unprobeable_host = Inr (failing_globals, probed_world)"
  by (simp add: startup_def unprobeable_host_def failing_globals_def probed_world_def getenv_def
      call_encode_def failing_encode_def probe_dim_def)

section \<open>Behaviour of the handlers\<close>

lemma embeddings_no_texts:
  "filter_texts (req_input req) = [] \<Longrightarrow>
   embeddings g w req =
     (Inl \<lparr>status_code = 400,
           detail = str_lit ''Input must contain at least one non-empty string.''\<rparr>, g, w)"
  by (simp add: embeddings_def)

lemma embeddings_raises:
  "filter_texts (req_input req) \<noteq> [] \<Longrightarrow>
   model g (lib_state w) (filter_texts (req_input req)) (req_normalize req) = (Inl e, s') \<Longrightarrow>
   embeddings g w req =
     (Inl \<lparr>status_code = 500, detail = str_lit ''Encoding failed: '' @ str_of e\<rparr>, g,
      \<lparr>lib_state = s',
       encode_calls = encode_calls w @ [(filter_texts (req_input req), req_normalize req)]\<rparr>)"
  by (simp add: embeddings_def call_encode_def)

lemma embeddings_returns:
  "filter_texts (req_input req) \<noteq> [] \<Longrightarrow>
   model g (lib_state w) (filter_texts (req_input req)) (req_normalize req) = (Inr vecs, s') \<Longrightarrow>
   embeddings g w req =
     (Inr (JDict [(''model'', JStr (MODEL_NAME g)),
                  (''dimension'', JInt (EMBEDDING_DIM g)),
                  (''data'', JList (map embedding_item vecs))]), g,
      \<lparr>lib_state = s',
       encode_calls = encode_calls w @ [(filter_texts (req_input req), req_normalize req)]\<rparr>)"
  by (simp add: embeddings_def call_encode_def)

lemma handle_globals: "fst (snd (handle g w r)) = g"
  by (cases r) (auto simp: handle_def health_def root_def embeddings_def Let_def
      split: prod.splits sum.splits)

lemma serve_globals: "fst (snd (serve g w rs)) = g"
proof (induction rs arbitrary: g w)
  case Nil
  show ?case by simp
next
  case (Cons r rs)
  obtain res g' w' where h: "handle g w r = (res, g', w')"
    by (cases "handle g w r") auto
  from handle_globals [of g w r] h have "g' = g" by simp
  with Cons.IH [of g w'] h show ?case
    by (auto split: prod.splits)
qed

lemma handle_reports:
  "fst (handle g w r) = Inr j \<Longrightarrow>
   field_of ''model'' j = Some (JStr (MODEL_NAME g)) \<and>
   field_of ''dimension'' j = Some (JInt (EMBEDDING_DIM g))"
  by (cases r) (auto simp: handle_def health_def root_def embeddings_def Let_def field_of_def
      split: prod.splits sum.splits if_splits)

lemma handle_post: "handle g w (POST_embeddings b) = embeddings g w (parse_request g b)"
  by (simp add: handle_def)

lemma some_non_blank_iff:
  "(\<exists>t \<in> set inp. non_blank t) \<longleftrightarrow> filter_texts inp \<noteq> []"
  by (simp add: filter_texts_eq filter_empty_conv)

lemma startup_normalize_default:
  "startup h = Inr (g, w) \<Longrightarrow> NORMALIZE_DEFAULT g = True"
  by (auto simp: startup_def Let_def split: option.splits sum.splits prod.splits)


lemma three_texts_filtered:
  "filter non_blank (body_input three_texts) = [str_lit ''a'', str_lit ''b c'']"
  by (simp add: three_texts_def non_blank_def isspace_def str_lit_def)

lemma three_texts_some: "\<exists>t \<in> set (body_input three_texts). non_blank t"
  by (simp add: three_texts_def non_blank_def isspace_def str_lit_def)

lemma handle_get_ok:
  "\<exists>j. fst (handle g w GET_health) = Inr j" "\<exists>j. fst (handle g w GET_root) = Inr j"
  by (simp_all add: handle_def health_def root_def)

lemma serve_replies:
  "list_all2
     (\<lambda>r res. case res of
        Inr j \<Rightarrow> field_of ''model'' j = Some (JStr (MODEL_NAME g)) \<and>
                 field_of ''dimension'' j = Some (JInt (EMBEDDING_DIM g))
      | Inl e \<Rightarrow> (case r of POST_embeddings b \<Rightarrow> True | _ \<Rightarrow> False))
     rs (fst (serve g w rs))"
proof (induction rs arbitrary: w)
  case Nil
  show ?case by simp
next
  case (Cons r rs)
  obtain res g' w' where h: "handle g w r = (res, g', w')"
    by (cases "handle g w r") auto
  from handle_globals [of g w r] h have g': "g' = g" by simp
  have one: "case res of
        Inr j \<Rightarrow> field_of ''model'' j = Some (JStr (MODEL_NAME g)) \<and>
                 field_of ''dimension'' j = Some (JInt (EMBEDDING_DIM g))
      | Inl e \<Rightarrow> (case r of POST_embeddings b \<Rightarrow> True | _ \<Rightarrow> False)"
  proof (cases res)
    case (Inl e)
    with h handle_get_ok [of g w] show ?thesis
      by (cases r) auto
  next
    case (Inr j)
    with h handle_reports [of g w r j] show ?thesis by simp
  qed
  from Cons.IH [of w'] one h g' show ?case
    by (auto split: prod.splits)
qed

lemma handle_post_applies:
  assumes "\<exists>t \<in> set (body_input b). non_blank t"
    and texts: "texts = filter non_blank (body_input b)"
    and flag: "flag = req_normalize (parse_request g b)"
  shows "handle g w (POST_embeddings b) =
           (case model g (lib_state w) texts flag of
              (Inl e, s') \<Rightarrow>
                (Inl \<lparr>status_code = 500, detail = str_lit ''Encoding failed: '' @ str_of e\<rparr>, g,
                 \<lparr>lib_state = s',
                  encode_calls = encode_calls w @ [(texts, flag)]\<rparr>)
            | (Inr vecs, s') \<Rightarrow>
                (Inr (JDict [(''model'', JStr (MODEL_NAME g)),
                             (''dimension'', JInt (EMBEDDING_DIM g)),
                             (''data'', JList (map embedding_item vecs))]), g,
                 \<lparr>lib_state = s',
                  encode_calls = encode_calls w @ [(texts, flag)]\<rparr>))"
proof -
  let ?req = "parse_request g b"
  have inp: "req_input ?req = body_input b"
    by (simp add: parse_request_def)
  from assms(1) have ne: "filter_texts (req_input ?req) \<noteq> []"
    by (simp add: inp some_non_blank_iff)
  obtain r s' where app:
    "model g (lib_state w) (filter_texts (req_input ?req)) (req_normalize ?req) = (r, s')"
    by (cases "model g (lib_state w) (filter_texts (req_input ?req)) (req_normalize ?req)")
  show ?thesis
  proof (cases r)
    case (Inl e)
    with app embeddings_raises [OF ne, of g w e s'] show ?thesis
      by (simp add: handle_post inp filter_texts_eq texts flag)
  next
    case (Inr vecs)
    with app embeddings_returns [OF ne, of g w vecs s'] show ?thesis
      by (simp add: handle_post inp filter_texts_eq texts flag)
  qed
qed

section \<open>The claims\<close>

text \<open>
  C1. A POST /embeddings request whose input holds at least one non-blank string, and
  whose \<open>encode\<close> call returns, is answered with a dictionary of the model name, the
  dimension and a \<open>data\<close> list. The list has one entry per filtered input string, and
  its i-th entry is a dictionary holding exactly the list form of the i-th returned
  vector. That \<open>encode\<close> returns one row per text is the library's contract.
\<close>

theorem embeddings_success_response:
  assumes "\<exists>t \<in> set (body_input b). non_blank t"
    and "model g (lib_state w) (filter non_blank (body_input b))
           (req_normalize (parse_request g b)) = (Inr vecs, s')"
    and "length vecs = length (filter non_blank (body_input b))"
  shows "\<exists>data.
           fst (handle g w (POST_embeddings b)) =
             Inr (JDict [(''model'', JStr (MODEL_NAME g)),
                         (''dimension'', JInt (EMBEDDING_DIM g)),
                         (''data'', JList data)]) \<and>
           length data = length (filter non_blank (body_input b)) \<and>
           (\<forall>i < length data.
              data ! i = JDict [(''embedding'', JList (map JNum (tolist (vecs ! i))))])"
proof -
  let ?req = "parse_request g b"
  have inp: "req_input ?req = body_input b"
    by (simp add: parse_request_def)
  from assms(1) have ne: "filter_texts (req_input ?req) \<noteq> []"
    by (simp add: inp some_non_blank_iff)
  from assms(2) have enc:
    "model g (lib_state w) (filter_texts (req_input ?req)) (req_normalize ?req) = (Inr vecs, s')"
    by (simp add: inp filter_texts_eq)
  have "fst (handle g w (POST_embeddings b)) =
          Inr (JDict [(''model'', JStr (MODEL_NAME g)),
                      (''dimension'', JInt (EMBEDDING_DIM g)),
                      (''data'', JList (map embedding_item vecs))])"
    by (simp add: handle_post embeddings_returns [OF ne enc])
  moreover have "length (map embedding_item vecs) = length (filter non_blank (body_input b))"
    using assms(3) by simp
  moreover have "\<forall>i < length (map embedding_item vecs).
      map embedding_item vecs ! i = JDict [(''embedding'', JList (map JNum (tolist (vecs ! i))))]"
    by (simp add: embedding_item_def)
  ultimately show ?thesis by blast
qed

theorem embeddings_success_response_witness:
  "(\<exists>t \<in> set (body_input three_texts). non_blank t) \<and>
   model sample_globals (lib_state probed_world) (filter non_blank (body_input three_texts))
     (req_normalize (parse_request sample_globals three_texts)) =
     (Inr [Array [1, 1], Array [3, 1]], 2) \<and>
   length [Array [1, 1], Array [3, 1 :: int]] = length (filter non_blank (body_input three_texts)) \<and>
   (\<exists>data.
      fst (handle sample_globals probed_world (POST_embeddings three_texts)) =
        Inr (JDict [(''model'', JStr (MODEL_NAME sample_globals)),
                    (''dimension'', JInt (EMBEDDING_DIM sample_globals)),
                    (''data'', JList data)]) \<and>
      length data = length (filter non_blank (body_input three_texts)) \<and>
      (\<forall>i < length data.
         data ! i =
           JDict [(''embedding'',
                   JList (map JNum (tolist ([Array [1, 1], Array [3, 1 :: int]] ! i))))]))"
proof -
  have h1: "\<exists>t \<in> set (body_input three_texts). non_blank t"
    by (simp add: three_texts_def non_blank_def isspace_def str_lit_def)
  have h2: "model sample_globals (lib_state probed_world)
      (filter non_blank (body_input three_texts))
      (req_normalize (parse_request sample_globals three_texts)) =
      (Inr [Array [1, 1], Array [3, 1]], 2)"
    by (simp add: three_texts_filtered)
       (simp add: sample_globals_def probed_world_def sample_encode_def parse_request_def
          three_texts_def str_lit_def)
  have h3: "length [Array [1, 1], Array [3, 1 :: int]] =
      length (filter non_blank (body_input three_texts))"
    by (simp add: three_texts_filtered)
  from embeddings_success_response [OF h1 h2 h3] h1 h2 h3 show ?thesis by blast
qed

text \<open>
  C2. The handler keeps exactly the non-blank elements of the input. When none is left it
  fails with status 400 and the fixed message, and the world is as before: no \<open>encode\<close>
  call has been made.
\<close>

theorem embeddings_blank_input_400:
  "filter_texts (body_input b) = filter non_blank (body_input b) \<and>
   (filter non_blank (body_input b) = [] \<longrightarrow>
      handle g w (POST_embeddings b) =
        (Inl \<lparr>status_code = 400,
              detail = str_lit ''Input must contain at least one non-empty string.''\<rparr>, g, w))"
proof -
  have "req_input (parse_request g b) = body_input b"
    by (simp add: parse_request_def)
  then show ?thesis
    by (simp add: filter_texts_eq handle_post embeddings_no_texts)
qed

theorem embeddings_blank_input_400_witness:
  "filter non_blank (body_input blank_texts) = [] \<and>
   handle sample_globals probed_world (POST_embeddings blank_texts) =
     (Inl \<lparr>status_code = 400,
           detail = str_lit ''Input must contain at least one non-empty string.''\<rparr>,
      sample_globals, probed_world)"
proof -
  have h: "filter non_blank (body_input blank_texts) = []"
    by (simp add: blank_texts_def non_blank_def isspace_def str_lit_def)
  from embeddings_blank_input_400 [of blank_texts sample_globals probed_world] h
  show ?thesis by simp
qed

text \<open>
  C3. With at least one filtered string, when \<open>encode\<close> raises, the handler fails with
  status 500 and a message that ends with the text of the exception. The library has been
  invoked once for the request: its call record grew by one entry.
\<close>

theorem embeddings_encode_failure_500:
  assumes "\<exists>t \<in> set (body_input b). non_blank t"
    and "model g (lib_state w) (filter non_blank (body_input b))
           (req_normalize (parse_request g b)) = (Inl e, s')"
  shows "handle g w (POST_embeddings b) =
           (Inl \<lparr>status_code = 500, detail = str_lit ''Encoding failed: '' @ str_of e\<rparr>, g,
            \<lparr>lib_state = s',
             encode_calls = encode_calls w @
               [(filter non_blank (body_input b), req_normalize (parse_request g b))]\<rparr>)"
proof -
  let ?req = "parse_request g b"
  have inp: "req_input ?req = body_input b"
    by (simp add: parse_request_def)
  from assms(1) have ne: "filter_texts (req_input ?req) \<noteq> []"
    by (simp add: inp some_non_blank_iff)
  from assms(2) have enc:
    "model g (lib_state w) (filter_texts (req_input ?req)) (req_normalize ?req) = (Inl e, s')"
    by (simp add: inp filter_texts_eq)
  from embeddings_raises [OF ne enc] show ?thesis
    by (simp add: handle_post inp filter_texts_eq)
qed

theorem embeddings_encode_failure_500_witness:
  "(\<exists>t \<in> set (body_input three_texts). non_blank t) \<and>
   model failing_globals (lib_state probed_world) (filter non_blank (body_input three_texts))
     (req_normalize (parse_request failing_globals three_texts)) =
     (Inl (Exception (str_lit ''out of memory'')), 2) \<and>
   handle failing_globals probed_world (POST_embeddings three_texts) =
     (Inl \<lparr>status_code = 500, detail = str_lit ''Encoding failed: out of memory''\<rparr>,
      failing_globals,
      \<lparr>lib_state = 2,
       encode_calls = [([str_lit ''test''], Some True),
                       ([str_lit ''a'', str_lit ''b c''], Some True)]\<rparr>)"
proof -
  have h2: "model failing_globals (lib_state probed_world)
      (filter non_blank (body_input three_texts))
      (req_normalize (parse_request failing_globals three_texts)) =
      (Inl (Exception (str_lit ''out of memory'')), 2)"
    by (simp add: failing_globals_def probed_world_def failing_encode_def)
  have flag: "req_normalize (parse_request failing_globals three_texts) = Some True"
    by (simp add: parse_request_def three_texts_def failing_globals_def)
  have msg: "str_lit ''Encoding failed: '' @ str_lit ''out of memory'' =
      str_lit ''Encoding failed: out of memory''"
    by (simp add: str_lit_def)
  have calls: "encode_calls probed_world = [([str_lit ''test''], Some True)]"
    by (simp add: probed_world_def)
  from embeddings_encode_failure_500 [OF three_texts_some h2] three_texts_some h2
  show ?thesis
    by (simp add: three_texts_filtered flag msg calls)
qed

text \<open>
  C4. When the library is imported and the model loaded, start-up succeeds whatever the
  probe does. It invokes \<open>encode\<close> exactly once, on the single text \<open>test\<close> with the
  default normalization flag. The dimension is the length of the first returned vector, and
  384 when the probe raises or returns nothing.
\<close>

theorem startup_probes_dimension_once:
  assumes "import_error h = None"
    and "SentenceTransformer h
           (getenv (environ h) (str_lit ''EMBEDDINGS_MODEL_NAME'')
              (str_lit ''BAAI/bge-small-en-v1.5'')) = Inr (enc, s0)"
    and "enc s0 [str_lit ''test''] (Some True) = (r, s1)"
  shows "\<exists>g. startup h =
               Inr (g, \<lparr>lib_state = s1, encode_calls = [([str_lit ''test''], Some True)]\<rparr>) \<and>
             NORMALIZE_DEFAULT g = True \<and>
             EMBEDDING_DIM g =
               (case r of
                  Inl e \<Rightarrow> 384
                | Inr [] \<Rightarrow> 384
                | Inr (v # vs) \<Rightarrow> int (length (tolist v)))"
  using assms
  by (simp add: startup_def call_encode_def probe_dim_def len_def
      split: sum.splits list.splits)

theorem startup_probes_dimension_once_witness:
  "(\<exists>g. startup sample_host =
          Inr (g, \<lparr>lib_state = 1, encode_calls = [([str_lit ''test''], Some True)]\<rparr>) \<and>
        NORMALIZE_DEFAULT g = True \<and> EMBEDDING_DIM g = 2) \<and>
   (\<exists>g. startup unprobeable_host =
          Inr (g, \<lparr>lib_state = 1, encode_calls = [([str_lit ''test''], Some True)]\<rparr>) \<and>
        NORMALIZE_DEFAULT g = True \<and> EMBEDDING_DIM g = 384)"
proof -
  have a1: "import_error sample_host = None"
    by (simp add: sample_host_def)
  have a2: "SentenceTransformer sample_host
      (getenv (environ sample_host) (str_lit ''EMBEDDINGS_MODEL_NAME'')
         (str_lit ''BAAI/bge-small-en-v1.5'')) = Inr (sample_encode, 0)"
    by (simp add: sample_host_def)
  have a3: "sample_encode 0 [str_lit ''test''] (Some True) = (Inr [Array [4, 1]], 1)"
    by (simp add: sample_encode_def str_lit_def)
  have b1: "import_error unprobeable_host = None"
    by (simp add: unprobeable_host_def)
  have b2: "SentenceTransformer unprobeable_host
      (getenv (environ unprobeable_host) (str_lit ''EMBEDDINGS_MODEL_NAME'')
         (str_lit ''BAAI/bge-small-en-v1.5'')) = Inr (failing_encode, 0)"
    by (simp add: unprobeable_host_def)
  have b3: "failing_encode 0 [str_lit ''test''] (Some True) =
      (Inl (Exception (str_lit ''out of memory'')), 1)"
    by (simp add: failing_encode_def)
  from startup_probes_dimension_once [OF a1 a2 a3] startup_probes_dimension_once [OF b1 b2 b3]
  show ?thesis by simp
qed

text \<open>
  C5. In a process that has started, every request is answered, and the globals after any
  sequence of requests are those of start-up. Every success response, of GET /health, of
  GET / and of POST /embeddings alike, carries the same model name and the same dimension,
  those of start-up; only a POST /embeddings request can be answered with an error.
\<close>

theorem reported_model_and_dimension_agree:
  assumes "startup h = Inr (g, w0)"
  shows "\<exists>ress w.
           run_process h rs = Inr (ress, g, w) \<and>
           list_all2
             (\<lambda>r res. case res of
                Inr j \<Rightarrow> field_of ''model'' j = Some (JStr (MODEL_NAME g)) \<and>
                         field_of ''dimension'' j = Some (JInt (EMBEDDING_DIM g))
              | Inl e \<Rightarrow> (case r of POST_embeddings b \<Rightarrow> True | _ \<Rightarrow> False))
             rs ress"
proof -
  obtain ress g' w where s: "serve g w0 rs = (ress, g', w)"
    by (cases "serve g w0 rs") auto
  from serve_globals [of g w0 rs] s have "g' = g" by simp
  with s assms have "run_process h rs = Inr (ress, g, w)"
    by (simp add: run_process_def)
  moreover from serve_replies [of g rs w0] s
  have "list_all2
          (\<lambda>r res. case res of
             Inr j \<Rightarrow> field_of ''model'' j = Some (JStr (MODEL_NAME g)) \<and>
                      field_of ''dimension'' j = Some (JInt (EMBEDDING_DIM g))
           | Inl e \<Rightarrow> (case r of POST_embeddings b \<Rightarrow> True | _ \<Rightarrow> False))
          rs ress"
    by simp
  ultimately show ?thesis by blast
qed

theorem reported_model_and_dimension_agree_witness:
  "startup sample_host = Inr (sample_globals, probed_world) \<and>
   (\<exists>ress w.
      run_process sample_host four_requests = Inr (ress, sample_globals, w) \<and>
      list_all2
        (\<lambda>r res. case res of
           Inr j \<Rightarrow> field_of ''model'' j = Some (JStr (MODEL_NAME sample_globals)) \<and>
                    field_of ''dimension'' j = Some (JInt (EMBEDDING_DIM sample_globals))
         | Inl e \<Rightarrow> (case r of POST_embeddings b \<Rightarrow> True | _ \<Rightarrow> False))
        four_requests ress)"
  using reported_model_and_dimension_agree [OF startup_sample_host, of four_requests]
    startup_sample_host
  by simp

text \<open>
  C6. In a started process, a POST /embeddings request that leaves \<open>normalize\<close> out has
  the same result, the same globals and the same world afterwards (hence the same
  \<open>encode\<close> invocation) as the request that passes \<open>true\<close>.
\<close>

theorem omitted_normalize_is_default_true:
  assumes "startup h = Inr (g, w0)"
  shows "handle g w (POST_embeddings (b\<lparr>body_normalize := Omitted\<rparr>)) =
         handle g w (POST_embeddings (b\<lparr>body_normalize := Present (Some True)\<rparr>))"
  using startup_normalize_default [OF assms]
  by (simp add: handle_post parse_request_def)

theorem omitted_normalize_is_default_true_witness:
  "startup sample_host = Inr (sample_globals, probed_world) \<and>
   handle sample_globals probed_world
     (POST_embeddings (three_texts\<lparr>body_normalize := Omitted\<rparr>)) =
   handle sample_globals probed_world
     (POST_embeddings (three_texts\<lparr>body_normalize := Present (Some True)\<rparr>))"
  using omitted_normalize_is_default_true [OF startup_sample_host, of probed_world three_texts]
    startup_sample_host
  by simp

text \<open>
  C7. When the library is imported and loading the named model raises, the process ends
  with the runtime error of line 24 whatever requests are waiting: none is served.
\<close>

theorem model_load_failure_is_fatal:
  assumes "import_error h = None"
    and "SentenceTransformer h
           (getenv (environ h) (str_lit ''EMBEDDINGS_MODEL_NAME'')
              (str_lit ''BAAI/bge-small-en-v1.5'')) = Inl e"
  shows "run_process h rs =
           Inl (RuntimeError
             (str_lit ''Failed to load model '' @ [39] @
              getenv (environ h) (str_lit ''EMBEDDINGS_MODEL_NAME'')
                (str_lit ''BAAI/bge-small-en-v1.5'') @ [39] @ str_lit ''.''))"
  using assms by (simp add: run_process_def startup_def)

theorem model_load_failure_is_fatal_witness:
  "import_error modelless_host = None \<and>
   SentenceTransformer modelless_host
     (getenv (environ modelless_host) (str_lit ''EMBEDDINGS_MODEL_NAME'')
        (str_lit ''BAAI/bge-small-en-v1.5'')) = Inl (Exception (str_lit ''no such model'')) \<and>
   run_process modelless_host four_requests =
     Inl (RuntimeError (str_lit ''Failed to load model '' @ [39] @
            str_lit ''BAAI/bge-small-en-v1.5'' @ [39] @ str_lit ''.''))"
proof -
  have a1: "import_error modelless_host = None"
    by (simp add: modelless_host_def)
  have a2: "SentenceTransformer modelless_host
      (getenv (environ modelless_host) (str_lit ''EMBEDDINGS_MODEL_NAME'')
         (str_lit ''BAAI/bge-small-en-v1.5'')) = Inl (Exception (str_lit ''no such model''))"
    by (simp add: modelless_host_def)
  have env: "getenv (environ modelless_host) (str_lit ''EMBEDDINGS_MODEL_NAME'')
      (str_lit ''BAAI/bge-small-en-v1.5'') = str_lit ''BAAI/bge-small-en-v1.5''"
    by (simp add: modelless_host_def getenv_def)
  from model_load_failure_is_fatal [OF a1 a2, of four_requests] a1 a2 show ?thesis
    by (simp add: env)
qed

text \<open>
  C8. In a started process, for a request with at least one non-blank string, an explicit
  \<open>null\<close> for \<open>normalize\<close> makes the handler apply \<open>encode\<close> to the filtered texts with
  the flag \<open>None\<close>, and the reply and the library's state are what that application gives.
  Leaving the field out makes it apply \<open>encode\<close> with the flag \<open>True\<close> instead, so the
  two requests are not interchangeable.
\<close>

theorem null_normalize_passes_None:
  assumes "startup h = Inr (g, w0)"
    and "\<exists>t \<in> set (body_input b). non_blank t"
  shows "handle g w (POST_embeddings (b\<lparr>body_normalize := Present None\<rparr>)) =
           (case model g (lib_state w) (filter non_blank (body_input b)) None of
              (Inl e, s') \<Rightarrow>
                (Inl \<lparr>status_code = 500, detail = str_lit ''Encoding failed: '' @ str_of e\<rparr>, g,
                 \<lparr>lib_state = s',
                  encode_calls = encode_calls w @ [(filter non_blank (body_input b), None)]\<rparr>)
            | (Inr vecs, s') \<Rightarrow>
                (Inr (JDict [(''model'', JStr (MODEL_NAME g)),
                             (''dimension'', JInt (EMBEDDING_DIM g)),
                             (''data'', JList (map embedding_item vecs))]), g,
                 \<lparr>lib_state = s',
                  encode_calls = encode_calls w @ [(filter non_blank (body_input b), None)]\<rparr>)) \<and>
         handle g w (POST_embeddings (b\<lparr>body_normalize := Omitted\<rparr>)) =
           (case model g (lib_state w) (filter non_blank (body_input b)) (Some True) of
              (Inl e, s') \<Rightarrow>
                (Inl \<lparr>status_code = 500, detail = str_lit ''Encoding failed: '' @ str_of e\<rparr>, g,
                 \<lparr>lib_state = s',
                  encode_calls = encode_calls w @
                    [(filter non_blank (body_input b), Some True)]\<rparr>)
            | (Inr vecs, s') \<Rightarrow>
                (Inr (JDict [(''model'', JStr (MODEL_NAME g)),
                             (''dimension'', JInt (EMBEDDING_DIM g)),
                             (''data'', JList (map embedding_item vecs))]), g,
                 \<lparr>lib_state = s',
                  encode_calls = encode_calls w @
                    [(filter non_blank (body_input b), Some True)]\<rparr>))"
proof -
  have d: "NORMALIZE_DEFAULT g = True"
    using assms(1) by (rule startup_normalize_default)
  have n: "\<exists>t \<in> set (body_input (b\<lparr>body_normalize := Present None\<rparr>)). non_blank t"
    using assms(2) by simp
  have o: "\<exists>t \<in> set (body_input (b\<lparr>body_normalize := Omitted\<rparr>)). non_blank t"
    using assms(2) by simp
  have fn: "req_normalize (parse_request g (b\<lparr>body_normalize := Present None\<rparr>)) = None"
    by (simp add: parse_request_def)
  have fo: "req_normalize (parse_request g (b\<lparr>body_normalize := Omitted\<rparr>)) = Some True"
    by (simp add: parse_request_def d)
  have tn: "filter non_blank (body_input b) =
      filter non_blank (body_input (b\<lparr>body_normalize := Present None\<rparr>))"
    by simp
  have to: "filter non_blank (body_input b) =
      filter non_blank (body_input (b\<lparr>body_normalize := Omitted\<rparr>))"
    by simp
  from handle_post_applies [OF n tn fn [symmetric], of w]
    handle_post_applies [OF o to fo [symmetric], of w]
  show ?thesis by (rule conjI)
qed

theorem null_normalize_passes_None_witness:
  "startup sample_host = Inr (sample_globals, probed_world) \<and>
   (\<exists>t \<in> set (body_input three_texts). non_blank t) \<and>
   handle sample_globals probed_world
       (POST_embeddings (three_texts\<lparr>body_normalize := Present None\<rparr>)) =
     (Inr (JDict [(''model'', JStr (str_lit ''BAAI/bge-small-en-v1.5'')),
                  (''dimension'', JInt 2),
                  (''data'', JList [JDict [(''embedding'', JList [JNum 1, JNum 0])],
                                    JDict [(''embedding'', JList [JNum 3, JNum 0])]])]),
      sample_globals,
      \<lparr>lib_state = 2,
       encode_calls = [([str_lit ''test''], Some True),
                       ([str_lit ''a'', str_lit ''b c''], None)]\<rparr>) \<and>
   handle sample_globals probed_world
       (POST_embeddings (three_texts\<lparr>body_normalize := Omitted\<rparr>)) =
     (Inr (JDict [(''model'', JStr (str_lit ''BAAI/bge-small-en-v1.5'')),
                  (''dimension'', JInt 2),
                  (''data'', JList [JDict [(''embedding'', JList [JNum 1, JNum 1])],
                                    JDict [(''embedding'', JList [JNum 3, JNum 1])]])]),
      sample_globals,
      \<lparr>lib_state = 2,
       encode_calls = [([str_lit ''test''], Some True),
                       ([str_lit ''a'', str_lit ''b c''], Some True)]\<rparr>)"
proof -
  have w: "encode_calls probed_world = [([str_lit ''test''], Some True)]"
    by (simp add: probed_world_def)
  have g: "MODEL_NAME sample_globals = str_lit ''BAAI/bge-small-en-v1.5''"
    "EMBEDDING_DIM sample_globals = 2"
    by (simp_all add: sample_globals_def)
  have e: "model sample_globals (lib_state probed_world) [str_lit ''a'', str_lit ''b c''] None =
             (Inr [Array [1, 0], Array [3, 0]], 2)"
    "model sample_globals (lib_state probed_world) [str_lit ''a'', str_lit ''b c'']
       (Some True) = (Inr [Array [1, 1], Array [3, 1]], 2)"
    by (simp_all add: sample_globals_def probed_world_def sample_encode_def str_lit_def)
  from null_normalize_passes_None [OF startup_sample_host three_texts_some, of probed_world]
    startup_sample_host three_texts_some
  show ?thesis
    by (simp add: three_texts_filtered w g e embedding_item_def)
qed

text \<open>
  C9. For a request with at least one non-blank string, \<open>encode\<close> is applied to the input
  strings that hold a non-whitespace character, each as it was received and in the order
  received, and the reply and the library's state are what that application gives: nothing
  is stripped from the texts that are encoded.
\<close>

theorem filtered_strings_passed_unmodified:
  assumes "\<exists>t \<in> set (body_input b). non_blank t"
  shows "handle g w (POST_embeddings b) =
           (case model g (lib_state w)
                   (filter (\<lambda>t. \<exists>c \<in> set t. \<not> isspace c) (body_input b))
                   (req_normalize (parse_request g b)) of
              (Inl e, s') \<Rightarrow>
                (Inl \<lparr>status_code = 500, detail = str_lit ''Encoding failed: '' @ str_of e\<rparr>, g,
                 \<lparr>lib_state = s',
                  encode_calls = encode_calls w @
                    [(filter (\<lambda>t. \<exists>c \<in> set t. \<not> isspace c) (body_input b),
                      req_normalize (parse_request g b))]\<rparr>)
            | (Inr vecs, s') \<Rightarrow>
                (Inr (JDict [(''model'', JStr (MODEL_NAME g)),
                             (''dimension'', JInt (EMBEDDING_DIM g)),
                             (''data'', JList (map embedding_item vecs))]), g,
                 \<lparr>lib_state = s',
                  encode_calls = encode_calls w @
                    [(filter (\<lambda>t. \<exists>c \<in> set t. \<not> isspace c) (body_input b),
                      req_normalize (parse_request g b))]\<rparr>))"
proof -
  have "non_blank = (\<lambda>t. \<exists>c \<in> set t. \<not> isspace c)"
    by (auto simp: non_blank_def fun_eq_iff)
  then have texts: "filter (\<lambda>t. \<exists>c \<in> set t. \<not> isspace c) (body_input b) =
      filter non_blank (body_input b)"
    by simp
  show ?thesis
    by (rule handle_post_applies [OF assms texts refl])
qed

theorem filtered_strings_passed_unmodified_witness:
  "(\<exists>t \<in> set (body_input padded_texts). non_blank t) \<and>
   handle sample_globals probed_world (POST_embeddings padded_texts) =
     (Inr (JDict [(''model'', JStr (str_lit ''BAAI/bge-small-en-v1.5'')),
                  (''dimension'', JInt 2),
                  (''data'', JList [JDict [(''embedding'', JList [JNum 6, JNum 0])],
                                    JDict [(''embedding'', JList [JNum 3, JNum 0])]])]),
      sample_globals,
      \<lparr>lib_state = 2,
       encode_calls = [([str_lit ''test''], Some True),
                       ([[32, 32, 97, 32, 98, 32], [9, 99, 10]], Some False)]\<rparr>)"
proof -
  have h: "\<exists>t \<in> set (body_input padded_texts). non_blank t"
    by (simp add: padded_texts_def non_blank_def isspace_def)
  have f: "filter (\<lambda>t. \<exists>c \<in> set t. \<not> isspace c) (body_input padded_texts) =
      [[32, 32, 97, 32, 98, 32], [9, 99, 10]]"
    by (simp add: padded_texts_def isspace_def)
  have fl: "req_normalize (parse_request sample_globals padded_texts) = Some False"
    by (simp add: parse_request_def padded_texts_def)
  have w: "encode_calls probed_world = [([str_lit ''test''], Some True)]"
    by (simp add: probed_world_def)
  have g: "MODEL_NAME sample_globals = str_lit ''BAAI/bge-small-en-v1.5''"
    "EMBEDDING_DIM sample_globals = 2"
    by (simp_all add: sample_globals_def)
  have e: "model sample_globals (lib_state probed_world)
             [[32, 32, 97, 32, 98, 32], [9, 99, 10]] (Some False) =
             (Inr [Array [6, 0], Array [3, 0]], 2)"
    by (simp add: sample_globals_def probed_world_def sample_encode_def)
  from filtered_strings_passed_unmodified [OF h, of sample_globals probed_world] h
  show ?thesis
    by (simp add: f fl w g e embedding_item_def)
qed

text \<open>
  C10. Handling a request, whichever route it takes and whether it succeeds or fails,
  returns the module globals (model name, default flag, model binding, dimension) as it
  found them; so does any sequence of requests.
\<close>

theorem handlers_leave_globals_unchanged:
  "fst (snd (handle g w r)) = g \<and> fst (snd (serve g w rs)) = g"
  by (simp add: handle_globals serve_globals)

theorem handlers_leave_globals_unchanged_witness:
  "fst (snd (handle failing_globals probed_world (POST_embeddings three_texts))) =
     failing_globals \<and>
   fst (snd (serve failing_globals probed_world four_requests)) = failing_globals"
  using handlers_leave_globals_unchanged [of failing_globals probed_world
      "POST_embeddings three_texts" four_requests]
  by simp

end
